theory Spec2Isabelle
  imports Main "HOL-Library.Word"
begin

unbundle bit_operations_syntax

section \<open>Strings and the Go library functions the controller calls\<close>

text \<open>
  A Go \<open>string\<close> is a sequence of bytes, here a \<open>char list\<close> (a \<open>char\<close> is one byte).
  \<open>strings.ToLower\<close>, \<open>strings.TrimSpace\<close> and \<open>strconv.Atoi\<close> belong to the Go
  standard library. Each is modelled on the bytes below \<open>utf8.RuneSelf = 0x80\<close>, where its
  behaviour is fixed by a few lines of the library; what the library does once it meets a
  byte from \<open>0x80\<close> on depends on the Unicode tables and is taken as a parameter.
\<close>

definition nl :: string where
  "nl = [CHR 0x0A]"

definition isASCII :: "string \<Rightarrow> bool" where
  "isASCII s = list_all (\<lambda>c. (of_char c :: nat) < 128) s"

definition isUpperByte :: "char \<Rightarrow> bool" where
  "isUpperByte c = (65 \<le> (of_char c :: nat) \<and> (of_char c :: nat) \<le> 90)"

definition lowerByte :: "char \<Rightarrow> char" where
  "lowerByte c = (if isUpperByte c then char_of ((of_char c :: nat) + 32) else c)"

text \<open>
  \<open>strings.ToLower\<close>: an ASCII-only string keeps every byte except \<open>'A'..'Z'\<close>, which move
  by \<open>'a' - 'A'\<close>; any other string goes through \<open>strings.Map(unicode.ToLower, s)\<close>, the
  parameter \<open>mapLower\<close>.
\<close>

definition ToLower :: "(string \<Rightarrow> string) \<Rightarrow> string \<Rightarrow> string" where
  "ToLower mapLower s =
     (if isASCII s then (if list_ex isUpperByte s then map lowerByte s else s)
      else mapLower s)"

text \<open>The table \<open>asciiSpace\<close> of package \<open>strings\<close>: tab, newline, vertical tab, form
  feed, carriage return and space.\<close>

definition asciiSpace :: "char \<Rightarrow> bool" where
  "asciiSpace c = ((of_char c :: nat) \<in> {9, 10, 11, 12, 13, 32})"

text \<open>
  \<open>strings.TrimSpace\<close>. The first loop walks over leading ASCII space; on a byte from
  \<open>0x80\<close> on it hands the rest to \<open>TrimFunc(s[start:], unicode.IsSpace)\<close> (parameter
  \<open>trimU\<close>). The second loop walks back from the end in the same way and hands over to
  \<open>TrimRightFunc(s[start:stop], unicode.IsSpace)\<close> (parameter \<open>trimRightU\<close>).
\<close>

fun trimLeft :: "(string \<Rightarrow> string) \<Rightarrow> string \<Rightarrow> string + string" where
  "trimLeft trimU [] = Inr []"
| "trimLeft trimU (c # cs) =
     (if 128 \<le> (of_char c :: nat) then Inl (trimU (c # cs))
      else if asciiSpace c then trimLeft trimU cs
      else Inr (c # cs))"

text \<open>The second loop, on the reversed rest: the head is the byte \<open>s[stop-1]\<close>.\<close>

fun trimRight :: "(string \<Rightarrow> string) \<Rightarrow> string \<Rightarrow> string" where
  "trimRight trimRightU [] = []"
| "trimRight trimRightU (c # rcs) =
     (if 128 \<le> (of_char c :: nat) then trimRightU (rev (c # rcs))
      else if asciiSpace c then trimRight trimRightU rcs
      else rev (c # rcs))"

definition TrimSpace :: "(string \<Rightarrow> string) \<Rightarrow> (string \<Rightarrow> string) \<Rightarrow> string \<Rightarrow> string" where
  "TrimSpace trimU trimRightU s =
     (case trimLeft trimU s of
        Inl r \<Rightarrow> r
      | Inr rest \<Rightarrow> trimRight trimRightU (rev rest))"

text \<open>
  \<open>strconv.Atoi\<close> on a 64-bit platform: an optional sign, then one or more decimal digits,
  and a value that fits \<open>int\<close>. Every caller in this program only tests \<open>err != nil\<close>, so
  the syntax error and the range error are both \<open>None\<close>.
\<close>

definition isDigit :: "char \<Rightarrow> bool" where
  "isDigit c = (48 \<le> (of_char c :: nat) \<and> (of_char c :: nat) \<le> 57)"

definition digitsValue :: "string \<Rightarrow> int" where
  "digitsValue ds = foldl (\<lambda>n ch. n * 10 + ((of_char ch :: int) - 48)) 0 ds"

definition Atoi :: "string \<Rightarrow> int option" where
  "Atoi s =
     (let neg = (s \<noteq> [] \<and> hd s = CHR ''-'');
          ds = (if s \<noteq> [] \<and> (hd s = CHR ''-'' \<or> hd s = CHR ''+'') then tl s else s)
      in if ds \<noteq> [] \<and> list_all isDigit ds
         then let n = digitsValue ds; v = (if neg then - n else n)
              in if v < - (2 ^ 63) \<or> 2 ^ 63 - 1 < v then None else Some v
         else None)"

section \<open>Data model (types.go)\<close>

record TokenData =
  Token :: string
  ExpiresIn :: string
  TokenUserID :: string
  TokenUsername :: string

record Friend =
  FriendID :: string
  FriendUsername :: string
  FriendshipDate :: string
  FriendshipID :: int
  UserID :: string
  Username :: string

definition GetUserID :: "Friend \<Rightarrow> string" where
  "GetUserID f = (if FriendID f \<noteq> [] then FriendID f else UserID f)"

definition GetUsername :: "Friend \<Rightarrow> string" where
  "GetUsername f = (if FriendUsername f \<noteq> [] then FriendUsername f else Username f)"

record IncomingFriendRequest =
  RecipientUserID :: string
  RecipientUsername :: string
  RequestData :: string
  RequestID :: int
  SenderUserID :: string
  SenderUsername :: string
  Status :: string
  Timestamp :: string

section \<open>The eligibility filter of handleFriendRequestResponse\<close>

text \<open>
  The first loop of \<open>handleFriendRequestResponse\<close>: it ranges over \<open>requests\<close> and appends
  to \<open>respondableRequests\<close> every request whose lower-cased status is \<open>pending\<close> or
  \<open>rejected\<close>. The second argument is the slice built so far.
\<close>

definition respondable :: "(string \<Rightarrow> string) \<Rightarrow> IncomingFriendRequest \<Rightarrow> bool" where
  "respondable mapLower request =
     (ToLower mapLower (Status request) = ''pending'' \<or>
      ToLower mapLower (Status request) = ''rejected'')"

fun filterLoop ::
  "(string \<Rightarrow> string) \<Rightarrow> IncomingFriendRequest list \<Rightarrow> IncomingFriendRequest list
     \<Rightarrow> IncomingFriendRequest list" where
  "filterLoop mapLower [] respondableRequests = respondableRequests"
| "filterLoop mapLower (request # requests) respondableRequests =
     filterLoop mapLower requests
       (if respondable mapLower request then respondableRequests @ [request]
        else respondableRequests)"

definition respondableRequests ::
  "(string \<Rightarrow> string) \<Rightarrow> IncomingFriendRequest list \<Rightarrow> IncomingFriendRequest list" where
  "respondableRequests mapLower requests = filterLoop mapLower requests []"

section \<open>Errors, terminal settings and the observable effects\<close>

text \<open>
  A Go \<open>error\<close> value: an \<open>errno\<close> of a system call, an error of the input stream or of
  an HTTP exchange (its message), or \<open>fmt.Errorf(format, args)\<close>. An argument of
  \<open>fmt.Errorf\<close> and \<open>fmt.Printf\<close> is a string, an integer or an error.
\<close>

datatype error = Errno nat | IOError string | Errorf string "fmtarg list"
  and fmtarg = ArgS string | ArgI int | ArgE error

text \<open>
  The struct \<open>termios\<close> of friend_requests (part_000, lines 293-301);
  \<open>termiosReceiveMessage\<close> (part_001, lines 148-156) declares the same fields.
  \<open>Cc\<close> is an array of 20 bytes.
\<close>

record termios =
  Iflag :: "32 word"
  Oflag :: "32 word"
  Cflag :: "32 word"
  Lflag :: "32 word"
  Cc :: "8 word list"
  Ispeed :: "32 word"
  Ospeed :: "32 word"

type_synonym termiosReceiveMessage = termios

text \<open>The constants of package \<open>syscall\<close> on Linux that \<open>makeRaw\<close> uses.\<close>

definition ICANON :: "32 word" where "ICANON = 0x2"
definition ECHO :: "32 word" where "ECHO = 0x8"
definition VMIN :: nat where "VMIN = 6"
definition VTIME :: nat where "VTIME = 5"

text \<open>
  What the program does to the world outside, in the order it does it: the calls of
  \<open>makeRaw\<close> and \<open>restore\<close> with their results, the text written to standard output
  (format string and arguments), the line reads, and the calls of the HTTP helpers with
  their arguments and results.
\<close>

datatype event =
    MakeRawCall "error + termios"
  | RestoreCall "termios option" "error option"
  | Output string "fmtarg list"
  | ReadStringCall "error + string"
  | ScanlnCall string
  | FetchConversationCall string string "error option"
  | SendMessageCall string string string "error option"
  | RespondCall string string string "error option"
  | ReadTokenCall
  | FetchFriendsCall string
  | FetchIncomingCall string
  | DisplayIncomingCall

text \<open>
  The environment answers every call that leaves the program. An answer depends on how
  many calls of the same kind came before, so that every run of the program is the run
  under some environment: the \<open>errno\<close> of the two \<open>ioctl\<close> calls of the n-th \<open>makeRaw\<close>
  (\<open>TCGETS\<close>, then \<open>TCSETS\<close>; 0 is success) and of the \<open>ioctl\<close> of the n-th \<open>restore\<close>,
  the result of the n-th \<open>ReadString('\n')\<close> and \<open>Scanln\<close>, of the n-th call of each HTTP
  helper, and of reading the token file. The first three fields are the Unicode parts of
  \<open>strings.ToLower\<close> and \<open>strings.TrimSpace\<close>.
\<close>

record env =
  mapLower :: "string \<Rightarrow> string"
  trimU :: "string \<Rightarrow> string"
  trimRightU :: "string \<Rightarrow> string"
  makeRaw_errno :: "nat \<Rightarrow> nat \<times> nat"
  restore_errno :: "nat \<Rightarrow> nat"
  ReadString_result :: "nat \<Rightarrow> error + string"
  Scanln_result :: "nat \<Rightarrow> string"
  fetchConversation_result :: "nat \<Rightarrow> error option"
  sendMessageToFriend_result :: "nat \<Rightarrow> error option"
  respondToFriendRequest_result :: "nat \<Rightarrow> error option"
  readToken_result :: "error + TokenData"
  fetchFriendsFromAPI_result :: "error + Friend list"
  fetchIncomingFriendRequests_result :: "error + IncomingFriendRequest list"

text \<open>The state: the settings of the one terminal device, and the effects so far.\<close>

record world =
  tty :: termios
  trace :: "event list"

definition start :: "termios \<Rightarrow> world" where
  "start t = \<lparr>tty = t, trace = []\<rparr>"

definition emit :: "event \<Rightarrow> world \<Rightarrow> world" where
  "emit e w = w\<lparr>trace := trace w @ [e]\<rparr>"

definition calls :: "(event \<Rightarrow> bool) \<Rightarrow> world \<Rightarrow> nat" where
  "calls P w = length (filter P (trace w))"

fun isMakeRaw :: "event \<Rightarrow> bool" where
  "isMakeRaw (MakeRawCall r) = True"
| "isMakeRaw e = False"

fun isMakeRawOk :: "event \<Rightarrow> bool" where
  "isMakeRawOk (MakeRawCall (Inr t)) = True"
| "isMakeRawOk e = False"

fun isRestore :: "event \<Rightarrow> bool" where
  "isRestore (RestoreCall t r) = True"
| "isRestore e = False"

fun isReadString :: "event \<Rightarrow> bool" where
  "isReadString (ReadStringCall r) = True"
| "isReadString e = False"

fun isScanln :: "event \<Rightarrow> bool" where
  "isScanln (ScanlnCall s) = True"
| "isScanln e = False"

fun isFetchConversation :: "event \<Rightarrow> bool" where
  "isFetchConversation (FetchConversationCall t p r) = True"
| "isFetchConversation e = False"

fun isSendMessage :: "event \<Rightarrow> bool" where
  "isSendMessage (SendMessageCall t m p r) = True"
| "isSendMessage e = False"

fun isRespond :: "event \<Rightarrow> bool" where
  "isRespond (RespondCall t u a r) = True"
| "isRespond e = False"

text \<open>A call of one of the helpers that talk to the backend over HTTP.\<close>

definition isNetwork :: "event \<Rightarrow> bool" where
  "isNetwork e =
     (isFetchConversation e \<or> isSendMessage e \<or> isRespond e \<or>
      (case e of FetchFriendsCall t \<Rightarrow> True | FetchIncomingCall t \<Rightarrow> True | _ \<Rightarrow> False))"

definition Printf :: "string \<Rightarrow> fmtarg list \<Rightarrow> world \<Rightarrow> world" where
  "Printf format args w = emit (Output format args) w"

definition Print :: "string \<Rightarrow> world \<Rightarrow> world" where
  "Print s w = emit (Output s []) w"

definition Println :: "string \<Rightarrow> world \<Rightarrow> world" where
  "Println s w = emit (Output (s @ nl) []) w"

text \<open>
  How a function ends: it returns (with a value), the process ends in \<open>os.Exit(code)\<close>, it
  panics, or it is blocked in \<open>os.Stdin.Read\<close> because the keys typed so far are used up.
\<close>

datatype 'a outcome = Return 'a | Exit int | Panic | Blocked

section \<open>Terminal Mode Switch: makeRaw and restore\<close>

text \<open>
  \<open>makeRaw\<close> (part_000, lines 303-325): \<open>ioctl(fd, TCGETS, &oldState)\<close> copies the
  settings of the device into \<open>oldState\<close>; \<open>newState\<close> is \<open>oldState\<close> with \<open>ICANON\<close> and
  \<open>ECHO\<close> cleared, \<open>Cc[VMIN] = 1\<close> and \<open>Cc[VTIME] = 0\<close>; \<open>ioctl(fd, TCSETS, &newState)\<close>
  makes them the settings of the device. A call that fails changes nothing. The result
  \<open>(&oldState, nil)\<close> is \<open>Inr oldState\<close>, the result \<open>(nil, errno)\<close> is \<open>Inl (Errno errno)\<close>.
  The descriptor is always that of standard input and is left out.
\<close>

definition makeRaw :: "env \<Rightarrow> world \<Rightarrow> (error + termios) \<times> world" where
  "makeRaw env w =
     (let errnos = makeRaw_errno env (calls isMakeRaw w);
          oldState = tty w
      in if fst errnos \<noteq> 0 then (Inl (Errno (fst errnos)), emit (MakeRawCall (Inl (Errno (fst errnos)))) w)
         else
           let newState = oldState
                 \<lparr>Lflag := Lflag oldState AND NOT (ICANON OR ECHO),
                  Cc := (Cc oldState)[VMIN := 1, VTIME := 0]\<rparr>
           in if snd errnos \<noteq> 0
              then (Inl (Errno (snd errnos)), emit (MakeRawCall (Inl (Errno (snd errnos)))) w)
              else (Inr oldState, emit (MakeRawCall (Inr oldState)) (w\<lparr>tty := newState\<rparr>)))"

text \<open>\<open>makeRawForReceiveMessage\<close> (part_001, lines 158-180) repeats \<open>makeRaw\<close> line by line.\<close>

definition makeRawForReceiveMessage :: "env \<Rightarrow> world \<Rightarrow> (error + termiosReceiveMessage) \<times> world" where
  "makeRawForReceiveMessage env w = makeRaw env w"

text \<open>
  \<open>restore\<close> (part_000, lines 327-333): \<open>ioctl(fd, TCSETS, oldState)\<close>, whose \<open>errno\<close>
  is the result. The parameter \<open>oldState\<close> is a pointer: \<open>Some\<close> of the saved settings, or
  \<open>None\<close> for \<open>nil\<close>. The function only converts the pointer and hands it to the
  system call. A call that succeeds makes the settings behind the pointer the settings of
  the device; behind \<open>nil\<close> there are no settings, and a call that fails changes nothing.
\<close>

definition restore :: "env \<Rightarrow> termios option \<Rightarrow> world \<Rightarrow> error option \<times> world" where
  "restore env oldState w =
     (let errno = restore_errno env (calls isRestore w)
      in if errno \<noteq> 0 then (Some (Errno errno), emit (RestoreCall oldState (Some (Errno errno))) w)
         else (None, emit (RestoreCall oldState None)
                       (case oldState of None \<Rightarrow> w | Some settings \<Rightarrow> w\<lparr>tty := settings\<rparr>)))"

text \<open>\<open>restoreForReceiveMessage\<close> (part_001, lines 182-188) repeats \<open>restore\<close>.\<close>

definition restoreForReceiveMessage ::
  "env \<Rightarrow> termiosReceiveMessage option \<Rightarrow> world \<Rightarrow> error option \<times> world" where
  "restoreForReceiveMessage env oldState w = restore env oldState w"

section \<open>The external collaborators\<close>

text \<open>
  \<open>reader.ReadString('\n')\<close> on a \<open>bufio.Reader\<close> over standard input, and
  \<open>fmt.Scanln(&choice)\<close>, whose error the program drops.
\<close>

definition ReadString :: "env \<Rightarrow> world \<Rightarrow> (error + string) \<times> world" where
  "ReadString env w =
     (let r = ReadString_result env (calls isReadString w) in (r, emit (ReadStringCall r) w))"

definition Scanln :: "env \<Rightarrow> world \<Rightarrow> string \<times> world" where
  "Scanln env w =
     (let s = Scanln_result env (calls isScanln w) in (s, emit (ScanlnCall s) w))"

text \<open>
  \<open>fetchConversation\<close> (part_001, lines 281-325) sends \<open>GET .../auth/conversation/<id>\<close>
  for \<open>id = friend.GetUserID()\<close> with the bearer token, and on success prints the
  conversation. The exchange and the printing are one event, which records the token and
  the peer id of the request.
\<close>

definition fetchConversation :: "env \<Rightarrow> TokenData \<Rightarrow> Friend \<Rightarrow> world \<Rightarrow> error option \<times> world" where
  "fetchConversation env token friend w =
     (let friendUserID = GetUserID friend;
          r = fetchConversation_result env (calls isFetchConversation w)
      in (r, emit (FetchConversationCall (Token token) friendUserID r) w))"

text \<open>\<open>sendMessageToFriend\<close> (part_001, lines 438-488): one POST to \<open>/auth/send_message\<close>.\<close>

definition sendMessageToFriend :: "env \<Rightarrow> string \<Rightarrow> string \<Rightarrow> string \<Rightarrow> world \<Rightarrow> error option \<times> world" where
  "sendMessageToFriend env token message recipientUID w =
     (let r = sendMessageToFriend_result env (calls isSendMessage w)
      in (r, emit (SendMessageCall token message recipientUID r) w))"

text \<open>\<open>respondToFriendRequest\<close> (part_000, lines 252-290): one POST to
  \<open>/auth/respond_friend_request\<close>.\<close>

definition respondToFriendRequest :: "env \<Rightarrow> TokenData \<Rightarrow> string \<Rightarrow> string \<Rightarrow> world \<Rightarrow> error option \<times> world" where
  "respondToFriendRequest env token username action w =
     (let r = respondToFriendRequest_result env (calls isRespond w)
      in (r, emit (RespondCall (Token token) username action r) w))"

section \<open>Action handlers\<close>

text \<open>The UTF-8 bytes of the pictographs in the program's messages.\<close>

definition outboxSign :: string where
  "outboxSign = [CHR 0xF0, CHR 0x9F, CHR 0x93, CHR 0xA4]"

definition inboxSign :: string where
  "inboxSign = [CHR 0xF0, CHR 0x9F, CHR 0x93, CHR 0xA5]"

definition checkSign :: string where
  "checkSign = [CHR 0xE2, CHR 0x9C, CHR 0x85]"

definition refreshSign :: string where
  "refreshSign = [CHR 0xF0, CHR 0x9F, CHR 0x94, CHR 0x84]"

definition speechSign :: string where
  "speechSign = [CHR 0xF0, CHR 0x9F, CHR 0x92, CHR 0xAC]"

definition keysHint :: string where
  "keysHint = nl @ ''Press CTRL+R to refresh conversation, CTRL+S to send message, or CTRL+C to exit...''"

text \<open>\<open>handleSendMessage\<close> (part_001, lines 398-435).\<close>

definition handleSendMessage :: "env \<Rightarrow> TokenData \<Rightarrow> Friend \<Rightarrow> world \<Rightarrow> error option \<times> world" where
  "handleSendMessage env token friend w =
     (let friendUsername = GetUsername friend;
          friendUserID = GetUserID friend;
          w1 = Printf (''Sending message to: %s'' @ nl) [ArgS friendUsername] w;
          w2 = Print ''Enter your message: '' w1
      in case ReadString env w2 of
           (Inl err, w3) \<Rightarrow> (Some (Errorf ''error reading message input: %v'' [ArgE err]), w3)
         | (Inr input, w3) \<Rightarrow>
             (let message = TrimSpace (trimU env) (trimRightU env) input
              in if message = []
                 then (None, Println ''Message cannot be empty. Message sending cancelled.'' w3)
                 else
                   (let w4 = Println (outboxSign @ '' Sending message...'') w3
                    in case sendMessageToFriend env (Token token) message friendUserID w4 of
                         (Some err, w5) \<Rightarrow> (Some (Errorf ''failed to send message: %v'' [ArgE err]), w5)
                       | (None, w5) \<Rightarrow>
                           (let w6 = Printf (checkSign @ '' Message sent successfully to %s!'' @ nl)
                                       [ArgS friendUsername] w5;
                                w7 = Println (refreshSign @ '' Refreshing conversation to show your message...'') w6
                            in case fetchConversation env token friend w7 of
                                 (Some err, w8) \<Rightarrow>
                                   (None, Printf (''Error refreshing conversation: %v'' @ nl) [ArgE err] w8)
                               | (None, w8) \<Rightarrow> (None, w8)))))"

text \<open>
  The slice index \<open>xs[i]\<close> of Go, which panics out of range.
\<close>

definition index :: "'a list \<Rightarrow> int \<Rightarrow> 'a option" where
  "index xs i = (if 0 \<le> i \<and> i < int (length xs) then Some (xs ! nat i) else None)"

text \<open>The numbered list of \<open>handleFriendRequestResponse\<close> (part_000, lines 193-196);
  the first argument is the loop index \<open>i\<close>.\<close>

fun printRequests :: "nat \<Rightarrow> IncomingFriendRequest list \<Rightarrow> world \<Rightarrow> world" where
  "printRequests i [] w = w"
| "printRequests i (request # rest) w =
     printRequests (i + 1) rest
       (Printf (''%d. From: %s (Status: %s, Request ID: %d)'' @ nl)
          [ArgI (int i + 1), ArgS (SenderUsername request), ArgS (Status request),
           ArgI (RequestID request)] w)"

text \<open>\<open>handleFriendRequestResponse\<close> from the choice of accept or reject on
  (part_000, lines 215-248).\<close>

definition respondToSelected ::
  "env \<Rightarrow> TokenData \<Rightarrow> IncomingFriendRequest \<Rightarrow> world \<Rightarrow> unit outcome \<times> world" where
  "respondToSelected env token selectedRequest w =
     (let w1 = Printf (nl @ ''Selected request from: %s'' @ nl) [ArgS (SenderUsername selectedRequest)] w;
          w2 = Println ''1. Accept'' w1;
          w3 = Println ''2. Reject'' w2;
          w4 = Print ''Enter your choice (1 or 2): '' w3
      in case ReadString env w4 of
           (Inl err, w5) \<Rightarrow> (Return (), Printf (''Error reading input: %v'' @ nl) [ArgE err] w5)
         | (Inr actionInput, w5) \<Rightarrow>
             (case Atoi (TrimSpace (trimU env) (trimRightU env) actionInput) of
                None \<Rightarrow> (Return (), Println ''Invalid choice.'' w5)
              | Some actionChoice \<Rightarrow>
                  if actionChoice \<noteq> 1 \<and> actionChoice \<noteq> 2
                  then (Return (), Println ''Invalid choice.'' w5)
                  else
                    (let action = (if actionChoice = 1 then ''accept'' else ''reject'')
                     in case respondToFriendRequest env token (SenderUsername selectedRequest) action w5 of
                          (Some err, w6) \<Rightarrow>
                            (Return (), Printf (''Error responding to friend request: %v'' @ nl) [ArgE err] w6)
                        | (None, w6) \<Rightarrow>
                            (Return (),
                             Println ''Program will now exit.''
                               (Printf (''Successfully %sed friend request from %s!'' @ nl)
                                  [ArgS action, ArgS (SenderUsername selectedRequest)] w6)))))"

text \<open>\<open>handleFriendRequestResponse\<close> (part_000, lines 175-249).\<close>

definition handleFriendRequestResponse ::
  "env \<Rightarrow> TokenData \<Rightarrow> IncomingFriendRequest list \<Rightarrow> world \<Rightarrow> unit outcome \<times> world" where
  "handleFriendRequestResponse env token requests w =
     (let rs = respondableRequests (mapLower env) requests
      in if length rs = 0
         then (Return (),
               Println ''Only requests with 'pending' or 'rejected' status can be responded to.''
                 (Println (nl @ ''No pending or rejected friend requests to respond to.'') w))
         else
           (let w1 = Println (nl @ ''=== Respond to Friend Requests ==='') w;
                w2 = Println ''Available requests (pending/rejected only):'' w1;
                w3 = printRequests 0 rs w2;
                w4 = Print (nl @ ''Enter the number of the request to respond to: '') w3
            in case ReadString env w4 of
                 (Inl err, w5) \<Rightarrow> (Return (), Printf (''Error reading input: %v'' @ nl) [ArgE err] w5)
               | (Inr input, w5) \<Rightarrow>
                   (case Atoi (TrimSpace (trimU env) (trimRightU env) input) of
                      None \<Rightarrow> (Return (), Println ''Invalid request number.'' w5)
                    | Some requestIndex \<Rightarrow>
                        if requestIndex < 1 \<or> requestIndex > int (length rs)
                        then (Return (), Println ''Invalid request number.'' w5)
                        else
                          (case index rs (requestIndex - 1) of
                             None \<Rightarrow> (Panic, w5)
                           | Some selectedRequest \<Rightarrow> respondToSelected env token selectedRequest w5))))"

section \<open>Session controller: the key loops\<close>

text \<open>
  One result of \<open>os.Stdin.Read(buffer)\<close> on the one-byte buffer: \<open>n = 1\<close> with the byte
  read, \<open>n = 0\<close> without an error, or an error.
\<close>

datatype read_result = ReadByte "8 word" | ReadZero | ReadErr error

text \<open>
  The body of \<open>if buffer[0] == 18\<close> in \<open>waitForCtrlRInReceiveMessage\<close> (part_001, lines
  99-117). The result is the new value of the variable \<open>oldState\<close>, or \<open>None\<close> when the
  body ends in \<open>return\<close>.
\<close>

definition refreshBranch ::
  "env \<Rightarrow> TokenData \<Rightarrow> Friend \<Rightarrow> termiosReceiveMessage \<Rightarrow> world \<Rightarrow> termiosReceiveMessage option \<times> world" where
  "refreshBranch env token friend oldState w =
     (let w1 = snd (restoreForReceiveMessage env (Some oldState) w);
          w2 = Println (nl @ refreshSign @ '' Refreshing conversation...'') w1;
          w4 = (case fetchConversation env token friend w2 of
                  (Some err, w3) \<Rightarrow> Printf (''Error refreshing conversation: %v'' @ nl) [ArgE err] w3
                | (None, w3) \<Rightarrow> w3);
          w5 = Println keysHint w4
      in case makeRawForReceiveMessage env w5 of
           (Inl err, w6) \<Rightarrow> (None, Printf (''Error setting terminal to raw mode: %v'' @ nl) [ArgE err] w6)
         | (Inr oldState', w6) \<Rightarrow> (Some oldState', w6))"

text \<open>The body of \<open>if buffer[0] == 19\<close> (part_001, lines 119-137).\<close>

definition composeBranch ::
  "env \<Rightarrow> TokenData \<Rightarrow> Friend \<Rightarrow> termiosReceiveMessage \<Rightarrow> world \<Rightarrow> termiosReceiveMessage option \<times> world" where
  "composeBranch env token friend oldState w =
     (let w1 = snd (restoreForReceiveMessage env (Some oldState) w);
          w2 = Println (nl @ speechSign @ '' Send Message Mode'') w1;
          w4 = (case handleSendMessage env token friend w2 of
                  (Some err, w3) \<Rightarrow> Printf (''Error sending message: %v'' @ nl) [ArgE err] w3
                | (None, w3) \<Rightarrow> w3);
          w5 = Println keysHint w4
      in case makeRawForReceiveMessage env w5 of
           (Inl err, w6) \<Rightarrow> (None, Printf (''Error setting terminal to raw mode: %v'' @ nl) [ArgE err] w6)
         | (Inr oldState', w6) \<Rightarrow> (Some oldState', w6))"

text \<open>
  The \<open>for\<close> loop of \<open>waitForCtrlRInReceiveMessage\<close> (part_001, lines 90-144), on the
  results of the reads to come. The three tests of \<open>buffer[0]\<close> follow one another as in
  the source. \<open>Return\<close> is a \<open>return\<close> statement of the loop, before the deferred call runs.
\<close>

fun receiveLoop ::
  "env \<Rightarrow> TokenData \<Rightarrow> Friend \<Rightarrow> termiosReceiveMessage \<Rightarrow> read_result list \<Rightarrow> world
     \<Rightarrow> unit outcome \<times> world" where
  "receiveLoop env token friend oldState [] w = (Blocked, w)"
| "receiveLoop env token friend oldState (ReadErr err # reads) w =
     (Return (), Printf (''Error reading input: %v'' @ nl) [ArgE err] w)"
| "receiveLoop env token friend oldState (ReadZero # reads) w =
     receiveLoop env token friend oldState reads w"
| "receiveLoop env token friend oldState (ReadByte b # reads) w =
     (case (if b = 18 then refreshBranch env token friend oldState w else (Some oldState, w)) of
        (None, w1) \<Rightarrow> (Return (), w1)
      | (Some oldState1, w1) \<Rightarrow>
          (case (if b = 19 then composeBranch env token friend oldState1 w1
                 else (Some oldState1, w1)) of
             (None, w2) \<Rightarrow> (Return (), w2)
           | (Some oldState2, w2) \<Rightarrow>
               if b = 3 then (Exit 0, Println (nl @ ''Exiting...'') w2)
               else receiveLoop env token friend oldState2 reads w2))"

text \<open>
  \<open>waitForCtrlRInReceiveMessage\<close> (part_001, lines 80-145). The statement
  \<open>defer restoreForReceiveMessage(fd, oldState)\<close> fixes its argument when it is executed,
  that is the pointer to the state saved by the first \<open>makeRawForReceiveMessage\<close>; the deferred call runs
  when the function returns or panics, and does not run when \<open>os.Exit\<close> ends the process.
\<close>

definition waitForCtrlRInReceiveMessage ::
  "env \<Rightarrow> TokenData \<Rightarrow> Friend \<Rightarrow> read_result list \<Rightarrow> world \<Rightarrow> unit outcome \<times> world" where
  "waitForCtrlRInReceiveMessage env token friend reads w =
     (case makeRawForReceiveMessage env w of
        (Inl err, w1) \<Rightarrow>
          (Return (), Printf (''Error setting terminal to raw mode: %v'' @ nl) [ArgE err] w1)
      | (Inr oldState, w1) \<Rightarrow>
          (case receiveLoop env token friend oldState reads w1 of
             (Return u, w2) \<Rightarrow> (Return u, snd (restoreForReceiveMessage env (Some oldState) w2))
           | (Panic, w2) \<Rightarrow> (Panic, snd (restoreForReceiveMessage env (Some oldState) w2))
           | (Exit code, w2) \<Rightarrow> (Exit code, w2)
           | (Blocked, w2) \<Rightarrow> (Blocked, w2)))"

text \<open>The \<open>for\<close> loop of \<open>waitForCtrlR\<close> (part_000, lines 150-171).\<close>

fun respondLoop ::
  "env \<Rightarrow> TokenData \<Rightarrow> IncomingFriendRequest list \<Rightarrow> termios \<Rightarrow> read_result list \<Rightarrow> world
     \<Rightarrow> unit outcome \<times> world" where
  "respondLoop env token requests oldState [] w = (Blocked, w)"
| "respondLoop env token requests oldState (ReadErr err # reads) w =
     (Return (), Printf (''Error reading input: %v'' @ nl) [ArgE err] w)"
| "respondLoop env token requests oldState (ReadZero # reads) w =
     respondLoop env token requests oldState reads w"
| "respondLoop env token requests oldState (ReadByte b # reads) w =
     (if b = 18
      then handleFriendRequestResponse env token requests (snd (restore env (Some oldState) w))
      else if b = 3 then (Exit 0, Println (nl @ ''Exiting...'') w)
      else respondLoop env token requests oldState reads w)"

text \<open>\<open>waitForCtrlR\<close> (part_000, lines 140-172), with its \<open>defer restore(fd, oldState)\<close>.\<close>

definition waitForCtrlR ::
  "env \<Rightarrow> TokenData \<Rightarrow> IncomingFriendRequest list \<Rightarrow> read_result list \<Rightarrow> world
     \<Rightarrow> unit outcome \<times> world" where
  "waitForCtrlR env token requests reads w =
     (case makeRaw env w of
        (Inl err, w1) \<Rightarrow>
          (Return (), Printf (''Error setting terminal to raw mode: %v'' @ nl) [ArgE err] w1)
      | (Inr oldState, w1) \<Rightarrow>
          (case respondLoop env token requests oldState reads w1 of
             (Return u, w2) \<Rightarrow> (Return u, snd (restore env (Some oldState) w2))
           | (Panic, w2) \<Rightarrow> (Panic, snd (restore env (Some oldState) w2))
           | (Exit code, w2) \<Rightarrow> (Exit code, w2)
           | (Blocked, w2) \<Rightarrow> (Blocked, w2)))"

section \<open>The callers of the key loops\<close>

text \<open>The list of friends of \<open>selectFriendForReceiveMessage\<close> (part_001, lines 252-256).\<close>

fun printFriends :: "nat \<Rightarrow> Friend list \<Rightarrow> world \<Rightarrow> world" where
  "printFriends i [] w = w"
| "printFriends i (friend # rest) w =
     printFriends (i + 1) rest
       (Printf (''%d. %s (ID: %s)'' @ nl)
          [ArgI (int i + 1), ArgS (GetUsername friend), ArgS (GetUserID friend)] w)"

text \<open>\<open>selectFriendForReceiveMessage\<close> (part_001, lines 250-278).\<close>

definition selectFriendForReceiveMessage ::
  "env \<Rightarrow> Friend list \<Rightarrow> world \<Rightarrow> (error + Friend) outcome \<times> world" where
  "selectFriendForReceiveMessage env friends w =
     (let w1 = Println (nl @ ''--- Your Friends ---'') w;
          w2 = printFriends 0 friends w1;
          w3 = Print (nl @ ''Enter the number of the friend whose conversation you want to view: '') w2
      in case Scanln env w3 of
           (choice, w4) \<Rightarrow>
             (case Atoi choice of
                None \<Rightarrow> (Return (Inl (Errorf ''invalid choice: please enter a number'' [])), w4)
              | Some choiceNum \<Rightarrow>
                  if choiceNum < 1 \<or> choiceNum > int (length friends)
                  then (Return (Inl (Errorf ''invalid choice: please select a number between 1 and %d''
                                       [ArgI (int (length friends))])), w4)
                  else
                    (case index friends (choiceNum - 1) of
                       None \<Rightarrow> (Panic, w4)
                     | Some selectedFriend \<Rightarrow>
                         (Return (Inr selectedFriend),
                          Printf (''Selected: %s'' @ nl) [ArgS (GetUsername selectedFriend)] w4))))"

text \<open>
  \<open>receive_message\<close> (part_001, lines 37-77). Reading the token file and
  \<open>fetchFriendsFromAPI\<close> are answered by the environment. The result \<open>Return None\<close> is
  \<open>return nil\<close>.
\<close>

definition receive_message :: "env \<Rightarrow> read_result list \<Rightarrow> world \<Rightarrow> error option outcome \<times> world" where
  "receive_message env reads w =
     (case readToken_result env of
        Inl err \<Rightarrow> (Exit 1, Printf (''Error reading token: %v'' @ nl) [ArgE err] (emit ReadTokenCall w))
      | Inr token \<Rightarrow>
          (let w1 = emit (FetchFriendsCall (Token token)) (emit ReadTokenCall w)
           in case fetchFriendsFromAPI_result env of
                Inl err \<Rightarrow> (Exit 1, Printf (''Error fetching friends: %v'' @ nl) [ArgE err] w1)
              | Inr friends \<Rightarrow>
                  if length friends = 0
                  then (Exit 1, Println ''No friends found in your friends list.'' w1)
                  else
                    (case selectFriendForReceiveMessage env friends w1 of
                       (Return (Inl err), w2) \<Rightarrow>
                         (Exit 1, Printf (''Error selecting friend: %v'' @ nl) [ArgE err] w2)
                     | (Return (Inr selectedFriend), w2) \<Rightarrow>
                         (case fetchConversation env token selectedFriend w2 of
                            (Some err, w3) \<Rightarrow>
                              (Exit 1, Printf (''Error fetching conversation: %v'' @ nl) [ArgE err] w3)
                          | (None, w3) \<Rightarrow>
                              (case waitForCtrlRInReceiveMessage env token selectedFriend reads
                                      (Println keysHint w3) of
                                 (Return u, w4) \<Rightarrow> (Return None, w4)
                               | (Exit code, w4) \<Rightarrow> (Exit code, w4)
                               | (Panic, w4) \<Rightarrow> (Panic, w4)
                               | (Blocked, w4) \<Rightarrow> (Blocked, w4)))
                     | (Exit code, w2) \<Rightarrow> (Exit code, w2)
                     | (Panic, w2) \<Rightarrow> (Panic, w2)
                     | (Blocked, w2) \<Rightarrow> (Blocked, w2))))"

text \<open>
  \<open>handleIncomingRequests\<close> (part_000, lines 105-122). \<open>fetchIncomingFriendRequests\<close> is
  answered by the environment; \<open>displayIncomingFriendRequests\<close>, which only prints, is one
  event.
\<close>

definition handleIncomingRequests ::
  "env \<Rightarrow> TokenData \<Rightarrow> read_result list \<Rightarrow> world \<Rightarrow> error option outcome \<times> world" where
  "handleIncomingRequests env token reads w =
     (let w1 = emit (FetchIncomingCall (Token token))
                 (Println (nl @ inboxSign @ '' Fetching incoming friend requests...'') w)
      in case fetchIncomingFriendRequests_result env of
           Inl err \<Rightarrow> (Return (Some (Errorf ''failed to fetch incoming requests: %v'' [ArgE err])), w1)
         | Inr requests \<Rightarrow>
             (let w2 = emit DisplayIncomingCall w1;
                  w3 = Println (nl @ ''Press CTRL+R to respond to friend requests or CTRL+C to exit...'') w2
              in case waitForCtrlR env token requests reads w3 of
                   (Return u, w4) \<Rightarrow> (Return None, w4)
                 | (Exit code, w4) \<Rightarrow> (Exit code, w4)
                 | (Panic, w4) \<Rightarrow> (Panic, w4)
                 | (Blocked, w4) \<Rightarrow> (Blocked, w4)))"

section \<open>Sample inputs and notions of the specification\<close>

text \<open>
  The settings that answer every call with success, for runs in which nothing outside
  the program fails: every line read is \<open>line\<close>.
\<close>

definition quietEnv :: "string \<Rightarrow> env" where
  "quietEnv line =
     \<lparr>mapLower = (\<lambda>s. s), trimU = (\<lambda>s. s), trimRightU = (\<lambda>s. s),
      makeRaw_errno = (\<lambda>n. (0, 0)), restore_errno = (\<lambda>n. 0),
      ReadString_result = (\<lambda>n. Inr line), Scanln_result = (\<lambda>n. line),
      fetchConversation_result = (\<lambda>n. None), sendMessageToFriend_result = (\<lambda>n. None),
      respondToFriendRequest_result = (\<lambda>n. None),
      readToken_result = Inr \<lparr>Token = ''t'', ExpiresIn = [], TokenUserID = ''1'', TokenUsername = ''me''\<rparr>,
      fetchFriendsFromAPI_result = Inr [], fetchIncomingFriendRequests_result = Inr []\<rparr>"

text \<open>A terminal in cooked mode: \<open>ICANON\<close> and \<open>ECHO\<close> are set in \<open>Lflag\<close>.\<close>

definition cooked :: termios where
  "cooked = \<lparr>Iflag = 0x500, Oflag = 0x5, Cflag = 0xBF, Lflag = 0x8A3B,
             Cc = replicate 20 0, Ispeed = 0xF, Ospeed = 0xF\<rparr>"

definition someToken :: TokenData where
  "someToken = \<lparr>Token = ''t'', ExpiresIn = [], TokenUserID = ''1'', TokenUsername = ''me''\<rparr>"

definition someFriend :: Friend where
  "someFriend = \<lparr>FriendID = ''7'', FriendUsername = ''bob'', FriendshipDate = [],
                 FriendshipID = 1, UserID = [], Username = []\<rparr>"

text \<open>An environment in which standard input is not a terminal: every \<open>TCGETS\<close> fails
  with \<open>ENOTTY\<close> (25). The user has one friend and types \<open>1\<close>.\<close>

definition noTtyEnv :: env where
  "noTtyEnv = (quietEnv ''1'')
     \<lparr>makeRaw_errno := (\<lambda>n. (25, 0)), fetchFriendsFromAPI_result := Inr [someFriend]\<rparr>"

definition request :: "int \<Rightarrow> string \<Rightarrow> IncomingFriendRequest" where
  "request i st =
     \<lparr>RecipientUserID = ''1'', RecipientUsername = ''me'', RequestData = [], RequestID = i,
      SenderUserID = ''7'', SenderUsername = ''bob'', Status = st, Timestamp = []\<rparr>"

text \<open>
  A capitalization of a lower-case word: the same letters, each in lower or upper case.
\<close>

definition upperByte :: "char \<Rightarrow> char" where
  "upperByte c = char_of ((of_char c :: nat) - 32)"

definition isLowerByte :: "char \<Rightarrow> bool" where
  "isLowerByte c = (97 \<le> (of_char c :: nat) \<and> (of_char c :: nat) \<le> 122)"

definition capitalizationOf :: "string \<Rightarrow> string \<Rightarrow> bool" where
  "capitalizationOf word s = list_all2 (\<lambda>c d. c = d \<or> c = upperByte d) s word"

text \<open>The number of successful raw-mode entries and of restore calls so far.\<close>

definition enters :: "world \<Rightarrow> nat" where
  "enters w = calls isMakeRawOk w"

definition restores :: "world \<Rightarrow> nat" where
  "restores w = calls isRestore w"

definition newEvents :: "world \<Rightarrow> world \<Rightarrow> event list" where
  "newEvents w w' = drop (length (trace w)) (trace w')"

section \<open>Properties\<close>

subsection \<open>The eligibility filter\<close>

lemma filterLoop_filter:
  "filterLoop lowerU requests acc = acc @ filter (respondable lowerU) requests"
  by (induction requests arbitrary: acc) simp_all

lemma respondableRequests_filter:
  "respondableRequests lowerU requests = filter (respondable lowerU) requests"
  by (simp add: respondableRequests_def filterLoop_filter)

lemma ToLower_ascii: "isASCII s \<Longrightarrow> ToLower lowerU s = map lowerByte s"
proof -
  have "\<not> list_ex isUpperByte s \<Longrightarrow> map lowerByte s = s"
    by (induction s) (simp_all add: lowerByte_def)
  then show "isASCII s \<Longrightarrow> ToLower lowerU s = map lowerByte s"
    by (auto simp: ToLower_def)
qed

lemma of_char_upperByte:
  assumes "isLowerByte d"
  shows "(of_char (upperByte d) :: nat) = of_char d - 32"
proof -
  have "(of_char d :: nat) - 32 < 256"
    using assms unfolding isLowerByte_def by arith
  then show ?thesis
    by (simp add: upperByte_def)
qed

lemma lowerByte_lower: "isLowerByte d \<Longrightarrow> lowerByte d = d"
  by (simp add: lowerByte_def isLowerByte_def isUpperByte_def)

lemma lowerByte_upperByte:
  assumes "isLowerByte d"
  shows "lowerByte (upperByte d) = d"
proof -
  have n: "(of_char (upperByte d) :: nat) = of_char d - 32"
    by (rule of_char_upperByte [OF assms])
  have up: "isUpperByte (upperByte d)"
    using assms unfolding isUpperByte_def n isLowerByte_def by arith
  have "(of_char d :: nat) - 32 + 32 = of_char d"
    using assms unfolding isLowerByte_def by arith
  then show ?thesis
    by (simp add: lowerByte_def up n)
qed

lemma capitalization_ascii:
  "capitalizationOf word s \<Longrightarrow> list_all isLowerByte word \<Longrightarrow> isASCII s"
  unfolding capitalizationOf_def isASCII_def
proof (induction s word rule: list_all2_induct)
  case Nil
  then show ?case by simp
next
  case (Cons c cs d ds)
  then have "isLowerByte d" by simp
  then have "(of_char c :: nat) < 128"
    using Cons.hyps(1) of_char_upperByte [of d] by (auto simp: isLowerByte_def)
  with Cons show ?case by simp
qed

lemma capitalization_lower:
  "capitalizationOf word s \<Longrightarrow> list_all isLowerByte word \<Longrightarrow> map lowerByte s = word"
  unfolding capitalizationOf_def
  by (induction s word rule: list_all2_induct)
     (auto simp: lowerByte_lower lowerByte_upperByte)

lemma ToLower_capitalization:
  "capitalizationOf word s \<Longrightarrow> list_all isLowerByte word \<Longrightarrow> ToLower lowerU s = word"
  by (simp add: ToLower_ascii capitalization_ascii capitalization_lower)

lemma lower_words:
  "list_all isLowerByte ''pending''" "list_all isLowerByte ''rejected''"
  "list_all isLowerByte ''accepted''"
  by (simp_all add: isLowerByte_def)

lemma ToLower_words:
  "ToLower lowerU ''pending'' = ''pending''"
  "ToLower lowerU ''rejected'' = ''rejected''"
  "ToLower lowerU ''accepted'' = ''accepted''"
  by (simp_all add: ToLower_def isASCII_def isUpperByte_def)

text \<open>
  C3. For every fetched sequence of friend requests, the slice that
  \<open>handleFriendRequestResponse\<close> offers is the sequence of the requests whose status,
  lower-cased as the code compares it, is \<open>pending\<close> or \<open>rejected\<close>, in their original
  order. Every request with the status \<open>pending\<close> or \<open>rejected\<close> is offered, no offered
  request has the status \<open>accepted\<close>, and of the three requests accepted (id 1), pending
  (id 2), rejected (id 3) exactly the second and the third are offered, in this order.
\<close>

theorem eligibility_filter:
  "respondableRequests lowerU requests =
     filter (\<lambda>r. ToLower lowerU (Status r) = ''pending'' \<or>
                 ToLower lowerU (Status r) = ''rejected'') requests
   \<and> (\<forall>r \<in> set requests. Status r = ''pending'' \<or> Status r = ''rejected''
          \<longrightarrow> r \<in> set (respondableRequests lowerU requests))
   \<and> (\<forall>r \<in> set (respondableRequests lowerU requests).
          Status r \<noteq> ''accepted'' \<and> ToLower lowerU (Status r) \<noteq> ''accepted'')
   \<and> respondableRequests lowerU
        [request 1 ''accepted'', request 2 ''pending'', request 3 ''rejected'']
      = [request 2 ''pending'', request 3 ''rejected'']"
proof -
  have eq: "respondableRequests lowerU rs =
     filter (\<lambda>r. ToLower lowerU (Status r) = ''pending'' \<or>
                 ToLower lowerU (Status r) = ''rejected'') rs" for rs
    using respondableRequests_filter [of lowerU rs] by (simp add: respondable_def [abs_def])
  have ex: "respondableRequests lowerU
        [request 1 ''accepted'', request 2 ''pending'', request 3 ''rejected'']
      = [request 2 ''pending'', request 3 ''rejected'']"
    by (simp add: eq request_def ToLower_words)
  show ?thesis
    using ex by (auto simp: eq ToLower_words)
qed

theorem eligibility_filter_witness:
  "request 2 ''pending'' \<in> set (respondableRequests (\<lambda>s. s) [request 1 ''accepted'', request 2 ''pending''])
   \<and> request 1 ''accepted'' \<notin> set (respondableRequests (\<lambda>s. s) [request 1 ''accepted'', request 2 ''pending''])"
  using eligibility_filter [of "\<lambda>s. s" "[request 1 ''accepted'', request 2 ''pending'']"]
  by (auto simp: request_def ToLower_words)

text \<open>
  C10. The filter compares the lower-cased status: a request whose status is any
  capitalization of \<open>pending\<close> or of \<open>rejected\<close> passes the test and is offered whenever it
  is among the fetched requests, and a request whose status is any capitalization of
  \<open>accepted\<close> fails the test and is never offered.
\<close>

theorem status_case_insensitive:
  "(capitalizationOf ''pending'' (Status r) \<or> capitalizationOf ''rejected'' (Status r)
      \<longrightarrow> respondable lowerU r \<and>
          (r \<in> set requests \<longrightarrow> r \<in> set (respondableRequests lowerU requests)))
   \<and> (capitalizationOf ''accepted'' (Status r)
      \<longrightarrow> \<not> respondable lowerU r \<and> r \<notin> set (respondableRequests lowerU requests))"
  using ToLower_capitalization [OF _ lower_words(1), of "Status r" lowerU]
        ToLower_capitalization [OF _ lower_words(2), of "Status r" lowerU]
        ToLower_capitalization [OF _ lower_words(3), of "Status r" lowerU]
  by (auto simp: respondable_def respondableRequests_filter)

theorem status_case_insensitive_witness:
  "capitalizationOf ''pending'' ''Pending''
   \<and> request 1 ''Pending'' \<in> set (respondableRequests (\<lambda>s. s) [request 1 ''Pending''])
   \<and> capitalizationOf ''rejected'' ''REJECTED''
   \<and> respondable (\<lambda>s. s) (request 2 ''REJECTED'')
   \<and> capitalizationOf ''accepted'' ''AccepteD''
   \<and> \<not> respondable (\<lambda>s. s) (request 3 ''AccepteD'')"
proof -
  have p: "capitalizationOf ''pending'' ''Pending''" by code_simp
  have r: "capitalizationOf ''rejected'' ''REJECTED''" by code_simp
  have a: "capitalizationOf ''accepted'' ''AccepteD''" by code_simp
  show ?thesis
    using p r a
      status_case_insensitive [of "request 1 ''Pending''" "\<lambda>s. s" "[request 1 ''Pending'']"]
      status_case_insensitive [of "request 2 ''REJECTED''" "\<lambda>s. s" "[]"]
      status_case_insensitive [of "request 3 ''AccepteD''" "\<lambda>s. s" "[]"]
    by (simp add: request_def)
qed

subsection \<open>Effects of the primitive operations\<close>

lemma trace_emit [simp]: "trace (emit e w) = trace w @ [e]"
  by (simp add: emit_def)

lemma tty_emit [simp]: "tty (emit e w) = tty w"
  by (simp add: emit_def)

lemma calls_emit [simp]: "calls P (emit e w) = (if P e then Suc (calls P w) else calls P w)"
  by (simp add: calls_def)

lemma calls_tty_update [simp]: "calls P (w\<lparr>tty := t\<rparr>) = calls P w"
  by (simp add: calls_def)

lemmas print_defs = Printf_def Print_def Println_def

subsection \<open>Keys the loop does not know\<close>

lemma receiveLoop_ignores:
  "\<forall>b \<in> set bs. b \<noteq> 18 \<and> b \<noteq> 19 \<and> b \<noteq> 3 \<Longrightarrow>
   receiveLoop env token friend oldState (map ReadByte bs @ reads) w
   = receiveLoop env token friend oldState reads w"
  by (induction bs) simp_all

text \<open>
  C4. For every sequence of key bytes other than 18, 19 and 3, the loop of
  \<open>waitForCtrlRInReceiveMessage\<close> consumes the bytes and is then blocked in the next read
  with the state it started from: nothing was written, no call was made, the terminal
  settings are the same, and the loop neither returned nor ended the process. Whatever is
  read after these bytes is handled as if they had not been typed.
\<close>

theorem unrecognized_keys_ignored:
  assumes "\<forall>b \<in> set bs. b \<noteq> 18 \<and> b \<noteq> 19 \<and> b \<noteq> 3"
  shows "receiveLoop env token friend oldState (map ReadByte bs) w = (Blocked, w)
    \<and> receiveLoop env token friend oldState (map ReadByte bs @ reads) w
        = receiveLoop env token friend oldState reads w
    \<and> waitForCtrlRInReceiveMessage env token friend (map ReadByte bs @ reads) w
        = waitForCtrlRInReceiveMessage env token friend reads w"
proof -
  have a: "receiveLoop env token friend st (map ReadByte bs @ rs) v
        = receiveLoop env token friend st rs v" for st rs v
    using assms by (rule receiveLoop_ignores)
  have "receiveLoop env token friend oldState (map ReadByte bs) w = (Blocked, w)"
    using a [of oldState "[]" w] by simp
  moreover have "waitForCtrlRInReceiveMessage env token friend (map ReadByte bs @ reads) w
        = waitForCtrlRInReceiveMessage env token friend reads w"
    by (simp add: waitForCtrlRInReceiveMessage_def a split: prod.splits sum.splits)
  ultimately show ?thesis
    using a by simp
qed

theorem unrecognized_keys_ignored_witness:
  "receiveLoop (quietEnv []) someToken someFriend cooked (map ReadByte [65, 13, 27, 0, 255]) (start cooked)
     = (Blocked, start cooked)"
  using unrecognized_keys_ignored [of "[65, 13, 27, 0, 255]" "quietEnv []" someToken someFriend cooked "start cooked" "[]"]
  by simp

subsection \<open>Raw-mode entries and restore calls\<close>

lemma makeRaw_Inl:
  "makeRaw env w = (Inl err, w') \<Longrightarrow>
     w' = emit (MakeRawCall (Inl err)) w \<and> makeRaw_errno env (calls isMakeRaw w) \<noteq> (0, 0)"
  by (cases "makeRaw_errno env (calls isMakeRaw w)")
     (auto simp: makeRaw_def Let_def split: if_splits)

lemma makeRaw_Inr:
  "makeRaw env w = (Inr st, w') \<Longrightarrow>
     st = tty w \<and> trace w' = trace w @ [MakeRawCall (Inr st)]
     \<and> tty w' = st\<lparr>Lflag := Lflag st AND NOT (ICANON OR ECHO), Cc := (Cc st)[VMIN := 1, VTIME := 0]\<rparr>"
  by (cases "makeRaw_errno env (calls isMakeRaw w)")
     (auto simp: makeRaw_def Let_def split: if_splits)

lemma counts_makeRaw:
  "makeRaw env w = (r, w') \<Longrightarrow>
     restores w' = restores w \<and> calls isMakeRaw w' = Suc (calls isMakeRaw w)
     \<and> enters w' = (case r of Inl err \<Rightarrow> enters w | Inr st \<Rightarrow> Suc (enters w))"
  by (cases "makeRaw_errno env (calls isMakeRaw w)")
     (auto simp: makeRaw_def Let_def enters_def restores_def split: if_splits)

lemma enters_emit [simp]: "enters (emit e w) = (if isMakeRawOk e then Suc (enters w) else enters w)"
  by (simp add: enters_def)

lemma restores_emit [simp]: "restores (emit e w) = (if isRestore e then Suc (restores w) else restores w)"
  by (simp add: restores_def)

lemma enters_tty [simp]: "enters (w\<lparr>tty := t\<rparr>) = enters w"
  by (simp add: enters_def)

lemma restores_tty [simp]: "restores (w\<lparr>tty := t\<rparr>) = restores w"
  by (simp add: restores_def)

lemma counts_restore [simp]:
  "enters (snd (restore env st w)) = enters w"
  "restores (snd (restore env st w)) = Suc (restores w)"
  "calls isMakeRaw (snd (restore env st w)) = calls isMakeRaw w"
  by (simp_all add: restore_def Let_def split: option.splits)

text \<open>
  C9. \<open>restore\<close> and \<open>restoreForReceiveMessage\<close> called with a \<open>nil\<close> token, as when raw
  mode was never entered, do not panic and leave the terminal as it is: the call returns
  the result of its one \<open>ioctl\<close>, and that call is its whole effect. Where the system call
  answers \<open>EFAULT\<close> (14) for the \<open>nil\<close> pointer, the result is that error and a cooked
  terminal stays cooked.
\<close>

theorem restore_nil_noop:
  "(\<exists>r. restore env None w = (r, emit (RestoreCall None r) w)
        \<and> restoreForReceiveMessage env None w = (r, emit (RestoreCall None r) w))
   \<and> tty (snd (restore env None w)) = tty w
   \<and> tty (snd (restoreForReceiveMessage env None w)) = tty w
   \<and> restore ((quietEnv [])\<lparr>restore_errno := (\<lambda>n. 14)\<rparr>) None (start cooked)
       = (Some (Errno 14), \<lparr>tty = cooked, trace = [RestoreCall None (Some (Errno 14))]\<rparr>)"
proof -
  have a: "\<exists>r. restore env None w = (r, emit (RestoreCall None r) w)
        \<and> restoreForReceiveMessage env None w = (r, emit (RestoreCall None r) w)"
    by (simp add: restoreForReceiveMessage_def restore_def Let_def)
  then have b: "tty (snd (restore env None w)) = tty w"
    and c: "tty (snd (restoreForReceiveMessage env None w)) = tty w"
    by auto
  have d: "restore ((quietEnv [])\<lparr>restore_errno := (\<lambda>n. 14)\<rparr>) None (start cooked)
       = (Some (Errno 14), \<lparr>tty = cooked, trace = [RestoreCall None (Some (Errno 14))]\<rparr>)"
    by (simp add: restore_def Let_def quietEnv_def start_def emit_def calls_def)
  from a b c d show ?thesis by blast
qed

lemma counts_print [simp]:
  "enters (Printf f args w) = enters w" "restores (Printf f args w) = restores w"
  "enters (Println s w) = enters w" "restores (Println s w) = restores w"
  "enters (Print s w) = enters w" "restores (Print s w) = restores w"
  by (simp_all add: print_defs)

lemma counts_fetchConversation [simp]:
  "enters (snd (fetchConversation env token friend w)) = enters w"
  "restores (snd (fetchConversation env token friend w)) = restores w"
  by (simp_all add: fetchConversation_def Let_def)

lemma counts_handleSendMessage [simp]:
  "enters (snd (handleSendMessage env token friend w)) = enters w"
  "restores (snd (handleSendMessage env token friend w)) = restores w"
  by (simp_all add: handleSendMessage_def Let_def ReadString_def sendMessageToFriend_def
      fetchConversation_def print_defs split: prod.splits sum.splits option.splits)

lemma fetchConversation_keeps:
  "fetchConversation env token friend w = (r, w') \<Longrightarrow>
     enters w' = enters w \<and> restores w' = restores w \<and> calls isMakeRaw w' = calls isMakeRaw w"
  by (auto simp: fetchConversation_def Let_def)

lemma handleSendMessage_keeps:
  "handleSendMessage env token friend w = (r, w') \<Longrightarrow>
     enters w' = enters w \<and> restores w' = restores w"
  using counts_handleSendMessage [of env token friend w] by simp

lemma refreshBranch_counts:
  assumes "refreshBranch env token friend st w = (r, w')"
  shows "restores w' = Suc (restores w)"
    and "enters w' = (case r of None \<Rightarrow> enters w | Some st' \<Rightarrow> Suc (enters w))"
    and "(\<forall>n. makeRaw_errno env n = (0, 0)) \<Longrightarrow> r \<noteq> None"
  using assms
  by (auto simp: refreshBranch_def makeRawForReceiveMessage_def restoreForReceiveMessage_def
      Let_def split: prod.splits sum.splits option.splits
      dest!: counts_makeRaw makeRaw_Inl fetchConversation_keeps)

lemma composeBranch_counts:
  assumes "composeBranch env token friend st w = (r, w')"
  shows "restores w' = Suc (restores w)"
    and "enters w' = (case r of None \<Rightarrow> enters w | Some st' \<Rightarrow> Suc (enters w))"
    and "(\<forall>n. makeRaw_errno env n = (0, 0)) \<Longrightarrow> r \<noteq> None"
  using assms
  by (auto simp: composeBranch_def makeRawForReceiveMessage_def restoreForReceiveMessage_def
      Let_def split: prod.splits sum.splits option.splits
      dest!: counts_makeRaw makeRaw_Inl handleSendMessage_keeps)

lemma receiveLoop_counts:
  "receiveLoop env token friend st reads w = (Return u, w') \<Longrightarrow> enters w = Suc (restores w) \<Longrightarrow>
     (enters w' = Suc (restores w') \<or> enters w' = restores w')
     \<and> ((\<forall>n. makeRaw_errno env n = (0, 0)) \<longrightarrow> enters w' = Suc (restores w'))"
proof (induction reads arbitrary: st w)
  case Nil
  then show ?case by simp
next
  case (Cons rd reads)
  show ?case
  proof (cases rd)
    case (ReadErr err)
    with Cons.prems show ?thesis by auto
  next
    case ReadZero
    with Cons show ?thesis by simp
  next
    case (ReadByte b)
    consider (r) "b = 18" | (s) "b = 19" | (c) "b = 3" | (o) "b \<noteq> 18" "b \<noteq> 19" "b \<noteq> 3"
      by blast
    then show ?thesis
    proof cases
      case r
      obtain x w1 where br: "refreshBranch env token friend st w = (x, w1)"
        by (cases "refreshBranch env token friend st w")
      note cs = refreshBranch_counts [OF br]
      show ?thesis
      proof (cases x)
        case None
        with Cons.prems ReadByte r br cs show ?thesis by auto
      next
        case (Some st1)
        with Cons.prems ReadByte r br cs Cons.IH [of st1 w1]
        show ?thesis by auto
      qed
    next
      case s
      obtain x w1 where br: "composeBranch env token friend st w = (x, w1)"
        by (cases "composeBranch env token friend st w")
      note cs = composeBranch_counts [OF br]
      show ?thesis
      proof (cases x)
        case None
        with Cons.prems ReadByte s br cs show ?thesis by auto
      next
        case (Some st1)
        with Cons.prems ReadByte s br cs Cons.IH [of st1 w1]
        show ?thesis by auto
      qed
    next
      case c
      with Cons.prems ReadByte show ?thesis by simp
    next
      case o
      with Cons.prems ReadByte Cons.IH [of st w]
      show ?thesis by simp
    qed
  qed
qed

lemma printRequests_keeps [simp]:
  "enters (printRequests i rs w) = enters w" "restores (printRequests i rs w) = restores w"
  by (induction i rs w rule: printRequests.induct) simp_all

lemma respondToSelected_keeps:
  "respondToSelected env token sel w = (r, w') \<Longrightarrow> enters w' = enters w \<and> restores w' = restores w"
  by (auto simp: respondToSelected_def Let_def ReadString_def respondToFriendRequest_def
      split: prod.splits sum.splits option.splits if_splits)

lemma handleFriendRequestResponse_keeps:
  "handleFriendRequestResponse env token requests w = (r, w') \<Longrightarrow>
     enters w' = enters w \<and> restores w' = restores w"
  by (auto simp: handleFriendRequestResponse_def Let_def ReadString_def
      split: prod.splits sum.splits option.splits if_splits dest!: respondToSelected_keeps)

lemma respondLoop_counts:
  "respondLoop env token requests st reads w = (Return u, w') \<Longrightarrow> enters w = Suc (restores w) \<Longrightarrow>
     (enters w' = Suc (restores w') \<or> enters w' = restores w')
     \<and> (ReadByte 18 \<notin> set reads \<longrightarrow> enters w' = Suc (restores w'))"
proof (induction reads arbitrary: w)
  case Nil
  then show ?case by simp
next
  case (Cons rd reads)
  show ?case
  proof (cases rd)
    case (ReadErr err)
    with Cons.prems show ?thesis by auto
  next
    case ReadZero
    with Cons show ?thesis by simp
  next
    case (ReadByte b)
    show ?thesis
    proof (cases "b = 18")
      case True
      with Cons.prems ReadByte
      have "handleFriendRequestResponse env token requests (snd (restore env (Some st) w)) = (Return u, w')"
        by simp
      from handleFriendRequestResponse_keeps [OF this] Cons.prems(2) True ReadByte
      show ?thesis by simp
    next
      case False
      with Cons.prems ReadByte Cons.IH [of w] show ?thesis
        by (auto split: if_splits)
    qed
  qed
qed

text \<open>
  C1 (as amended). On every path on which a key loop returns to its caller, each
  successful raw-mode entry was followed by a restore call, and there is at most one
  restore call more than entries. The two numbers are equal when
  \<open>waitForCtrlRInReceiveMessage\<close> returns and no raw-mode entry has failed (its return after
  a fatal input error), and when \<open>waitForCtrlR\<close> returns without having read the key 18
  (a failed setup or a fatal input error). The exit through the interrupt key is not part
  of this statement.
\<close>

theorem restore_calls_on_return:
  "(waitForCtrlRInReceiveMessage env token friend reads (start t) = (Return u, w') \<longrightarrow>
      enters w' \<le> restores w' \<and> restores w' \<le> Suc (enters w')
      \<and> ((\<forall>n. makeRaw_errno env n = (0, 0)) \<longrightarrow> restores w' = enters w'))
   \<and> (waitForCtrlR env token requests reads (start t) = (Return u, w'') \<longrightarrow>
      enters w'' \<le> restores w'' \<and> restores w'' \<le> Suc (enters w'')
      \<and> (ReadByte 18 \<notin> set reads \<longrightarrow> restores w'' = enters w''))"
proof -
  have z: "enters (start t) = 0" "restores (start t) = 0" "calls isMakeRaw (start t) = 0"
    by (simp_all add: start_def enters_def restores_def calls_def)
  have a: "enters w' \<le> restores w' \<and> restores w' \<le> Suc (enters w')
      \<and> ((\<forall>n. makeRaw_errno env n = (0, 0)) \<longrightarrow> restores w' = enters w')"
    if run: "waitForCtrlRInReceiveMessage env token friend reads (start t) = (Return u, w')"
  proof -
    obtain m w1 where mk: "makeRaw env (start t) = (m, w1)"
      by (cases "makeRaw env (start t)")
    note c = counts_makeRaw [OF mk]
    show ?thesis
    proof (cases m)
      case (Inl err)
      with run mk c z makeRaw_Inl [of env "start t" err w1] show ?thesis
        by (auto simp: waitForCtrlRInReceiveMessage_def makeRawForReceiveMessage_def)
    next
      case (Inr st)
      obtain out w2 where lp: "receiveLoop env token friend st reads w1 = (out, w2)"
        by (cases "receiveLoop env token friend st reads w1")
      with run mk Inr have out: "out = Return u" and w': "w' = snd (restore env (Some st) w2)"
        by (auto simp: waitForCtrlRInReceiveMessage_def makeRawForReceiveMessage_def
            restoreForReceiveMessage_def split: outcome.splits)
      from c Inr z have "enters w1 = Suc (restores w1)" by simp
      from receiveLoop_counts [OF lp [unfolded out] this] w' show ?thesis
        by auto
    qed
  qed
  have b: "enters w'' \<le> restores w'' \<and> restores w'' \<le> Suc (enters w'')
      \<and> (ReadByte 18 \<notin> set reads \<longrightarrow> restores w'' = enters w'')"
    if run: "waitForCtrlR env token requests reads (start t) = (Return u, w'')"
  proof -
    obtain m w1 where mk: "makeRaw env (start t) = (m, w1)"
      by (cases "makeRaw env (start t)")
    note c = counts_makeRaw [OF mk]
    show ?thesis
    proof (cases m)
      case (Inl err)
      with run mk c z show ?thesis
        by (auto simp: waitForCtrlR_def)
    next
      case (Inr st)
      obtain out w2 where lp: "respondLoop env token requests st reads w1 = (out, w2)"
        by (cases "respondLoop env token requests st reads w1")
      with run mk Inr have out: "out = Return u" and w': "w'' = snd (restore env (Some st) w2)"
        by (auto simp: waitForCtrlR_def split: outcome.splits)
      from c Inr z have "enters w1 = Suc (restores w1)" by simp
      from respondLoop_counts [OF lp [unfolded out] this] w' show ?thesis
        by auto
    qed
  qed
  from a b show ?thesis by blast
qed

theorem restore_calls_on_return_witness:
  "fst (waitForCtrlRInReceiveMessage (quietEnv []) someToken someFriend
          [ReadByte 18, ReadErr (IOError ''EOF'')] (start cooked)) = Return ()
   \<and> restores (snd (waitForCtrlRInReceiveMessage (quietEnv []) someToken someFriend
          [ReadByte 18, ReadErr (IOError ''EOF'')] (start cooked)))
     = enters (snd (waitForCtrlRInReceiveMessage (quietEnv []) someToken someFriend
          [ReadByte 18, ReadErr (IOError ''EOF'')] (start cooked)))
   \<and> fst (waitForCtrlR (quietEnv []) someToken [] [ReadErr (IOError ''EOF'')] (start cooked)) = Return ()
   \<and> restores (snd (waitForCtrlR (quietEnv []) someToken [] [ReadErr (IOError ''EOF'')] (start cooked)))
     = enters (snd (waitForCtrlR (quietEnv []) someToken [] [ReadErr (IOError ''EOF'')] (start cooked)))"
proof -
  let ?X = "waitForCtrlRInReceiveMessage (quietEnv []) someToken someFriend
          [ReadByte 18, ReadErr (IOError ''EOF'')] (start cooked)"
  let ?Y = "waitForCtrlR (quietEnv []) someToken [] [ReadErr (IOError ''EOF'')] (start cooked)"
  have x: "fst ?X = Return ()" by code_simp
  have y: "fst ?Y = Return ()" by code_simp
  have ok: "\<forall>n. makeRaw_errno (quietEnv []) n = (0, 0)" by (simp add: quietEnv_def)
  have x': "?X = (Return (), snd ?X)" using x by (metis prod.collapse)
  have y': "?Y = (Return (), snd ?Y)" using y by (metis prod.collapse)
  show ?thesis
    using restore_calls_on_return [where env = "quietEnv []" and token = someToken
        and friend = someFriend and reads = "[ReadByte 18, ReadErr (IOError ''EOF'')]"
        and t = cooked and u = "()" and w' = "snd ?X"]
      restore_calls_on_return [where env = "quietEnv []" and token = someToken
        and requests = "[]" and reads = "[ReadErr (IOError ''EOF'')]"
        and t = cooked and u = "()" and w'' = "snd ?Y"]
      x y x' y' ok
    by simp
qed

text \<open>
  The claim C1 as written (as many restore calls as successful entries on every exit
  path) fails when \<open>waitForCtrlR\<close> returns after the key 18: the call before the handler and
  the deferred call are two restore calls for the one entry.
\<close>

theorem restore_twice_counterexample:
  "fst (waitForCtrlR (quietEnv []) someToken [] [ReadByte 18] (start cooked)) = Return ()
   \<and> enters (snd (waitForCtrlR (quietEnv []) someToken [] [ReadByte 18] (start cooked))) = 1
   \<and> restores (snd (waitForCtrlR (quietEnv []) someToken [] [ReadByte 18] (start cooked))) = 2"
  by code_simp

text \<open>
  C2. When the byte 3 is read, either key loop writes the farewell line and ends the
  process with exit code 0, and does nothing else: it makes no restore call, and
  \<open>os.Exit\<close> does not run the deferred one. In the run in which the interrupt key is the
  first key typed, from a cooked terminal and with every system call succeeding, the
  effects are the raw-mode entry and the farewell line; no call goes to the network, and
  the terminal is left with \<open>ICANON\<close> and \<open>ECHO\<close> cleared.
\<close>

theorem interrupt_skips_restore:
  "receiveLoop env token friend oldState (ReadByte 3 # reads) w
     = (Exit 0, Println (nl @ ''Exiting...'') w)
   \<and> respondLoop env token requests oldState (ReadByte 3 # reads) w
     = (Exit 0, Println (nl @ ''Exiting...'') w)
   \<and> waitForCtrlRInReceiveMessage (quietEnv []) someToken someFriend [ReadByte 3] (start cooked)
     = (Exit 0, \<lparr>tty = cooked\<lparr>Lflag := 0x8A31, Cc := (replicate 20 0)[6 := 1]\<rparr>,
                 trace = [MakeRawCall (Inr cooked), Output (nl @ ''Exiting...'' @ nl) []]\<rparr>)
   \<and> waitForCtrlR (quietEnv []) someToken [] [ReadByte 3] (start cooked)
     = (Exit 0, \<lparr>tty = cooked\<lparr>Lflag := 0x8A31, Cc := (replicate 20 0)[6 := 1]\<rparr>,
                 trace = [MakeRawCall (Inr cooked), Output (nl @ ''Exiting...'' @ nl) []]\<rparr>)
   \<and> Lflag cooked AND (ICANON OR ECHO) = ICANON OR ECHO
   \<and> Lflag (cooked\<lparr>Lflag := 0x8A31, Cc := (replicate 20 0)[6 := 1]\<rparr>) AND (ICANON OR ECHO) = 0"
proof -
  have a: "receiveLoop env token friend oldState (ReadByte 3 # reads) w
     = (Exit 0, Println (nl @ ''Exiting...'') w)"
    by simp
  have b: "respondLoop env token requests oldState (ReadByte 3 # reads) w
     = (Exit 0, Println (nl @ ''Exiting...'') w)"
    by simp
  have c: "waitForCtrlRInReceiveMessage (quietEnv []) someToken someFriend [ReadByte 3] (start cooked)
     = (Exit 0, \<lparr>tty = cooked\<lparr>Lflag := 0x8A31, Cc := (replicate 20 0)[6 := 1]\<rparr>,
                 trace = [MakeRawCall (Inr cooked), Output (nl @ ''Exiting...'' @ nl) []]\<rparr>)"
    by code_simp
  have d: "waitForCtrlR (quietEnv []) someToken [] [ReadByte 3] (start cooked)
     = (Exit 0, \<lparr>tty = cooked\<lparr>Lflag := 0x8A31, Cc := (replicate 20 0)[6 := 1]\<rparr>,
                 trace = [MakeRawCall (Inr cooked), Output (nl @ ''Exiting...'' @ nl) []]\<rparr>)"
    by code_simp
  have e: "Lflag cooked AND (ICANON OR ECHO) = ICANON OR ECHO"
    by code_simp
  have f: "Lflag (cooked\<lparr>Lflag := 0x8A31, Cc := (replicate 20 0)[6 := 1]\<rparr>) AND (ICANON OR ECHO) = 0"
    by code_simp
  from a b c d e f show ?thesis by blast
qed

text \<open>
  The claim C8 as written (the caller observes an error result) fails: when the first
  \<open>makeRawForReceiveMessage\<close> fails with \<open>errno\<close> 25, \<open>receive_message\<close> returns \<open>nil\<close>.
\<close>

theorem setup_failure_counterexample:
  "fst (receive_message noTtyEnv
         [ReadByte 18] (start cooked)) = Return None
   \<and> MakeRawCall (Inl (Errno 25)) \<in> set (trace (snd (receive_message noTtyEnv
         [ReadByte 18] (start cooked))))"
  by code_simp

subsection \<open>Failure of the setup\<close>

lemma makeRaw_fail:
  "makeRaw_errno env (calls isMakeRaw w) \<noteq> (0, 0) \<Longrightarrow>
     \<exists>err. makeRaw env w = (Inl err, emit (MakeRawCall (Inl err)) w)"
  by (cases "makeRaw_errno env (calls isMakeRaw w)") (auto simp: makeRaw_def Let_def)

lemma printFriends_calls [simp]: "calls isMakeRaw (printFriends i fs w) = calls isMakeRaw w"
  by (induction i fs w rule: printFriends.induct) (simp_all add: print_defs)

lemma selectFriend_result:
  "selectFriendForReceiveMessage env friends w = (r, w') \<Longrightarrow>
     calls isMakeRaw w' = calls isMakeRaw w \<and> (\<exists>x. r = Return x)"
  by (auto simp: selectFriendForReceiveMessage_def Let_def Scanln_def index_def print_defs
      split: prod.splits option.splits if_splits)

lemma waitForCtrlRInReceiveMessage_fail:
  "makeRaw_errno env (calls isMakeRaw w) \<noteq> (0, 0) \<Longrightarrow>
     fst (waitForCtrlRInReceiveMessage env token friend reads w) = Return ()"
  by (auto simp: waitForCtrlRInReceiveMessage_def makeRawForReceiveMessage_def dest!: makeRaw_fail)

text \<open>
  C8 (as amended). If entering raw mode fails during the setup of a key loop, the loop
  writes \<open>Error setting terminal to raw mode\<close> with the error and returns, whatever the
  keys to come are: no key is read, no restore call is made and the terminal settings
  are unchanged. The loop has no result value; its caller goes on to \<open>return nil\<close>, so
  \<open>handleIncomingRequests\<close> returns \<open>nil\<close> once the requests were fetched, and
  \<open>receive_message\<close> either returns \<open>nil\<close> or has ended the process with code 1 before
  it reached the loop.
\<close>

theorem setup_failure_reported:
  assumes "makeRaw_errno env (calls isMakeRaw w) \<noteq> (0, 0)"
  shows "(\<exists>err. waitForCtrlRInReceiveMessage env token friend reads w =
             (Return (), Printf (''Error setting terminal to raw mode: %v'' @ nl) [ArgE err]
                           (emit (MakeRawCall (Inl err)) w))
           \<and> waitForCtrlR env token requests reads w =
             (Return (), Printf (''Error setting terminal to raw mode: %v'' @ nl) [ArgE err]
                           (emit (MakeRawCall (Inl err)) w)))
     \<and> (fetchIncomingFriendRequests_result env = Inr requests \<longrightarrow>
          fst (handleIncomingRequests env token reads w) = Return None)
     \<and> (fst (receive_message env reads w) = Return None \<or> fst (receive_message env reads w) = Exit 1)"
proof -
  from makeRaw_fail [OF assms] obtain err where
    mk: "makeRaw env w = (Inl err, emit (MakeRawCall (Inl err)) w)" ..
  have a: "\<exists>err. waitForCtrlRInReceiveMessage env token friend reads w =
             (Return (), Printf (''Error setting terminal to raw mode: %v'' @ nl) [ArgE err]
                           (emit (MakeRawCall (Inl err)) w))
           \<and> waitForCtrlR env token requests reads w =
             (Return (), Printf (''Error setting terminal to raw mode: %v'' @ nl) [ArgE err]
                           (emit (MakeRawCall (Inl err)) w))"
    using mk by (auto simp: waitForCtrlRInReceiveMessage_def waitForCtrlR_def makeRawForReceiveMessage_def)
  have b: "fst (handleIncomingRequests env token reads w) = Return None"
    if f: "fetchIncomingFriendRequests_result env = Inr requests"
  proof -
    let ?w3 = "Println (nl @ ''Press CTRL+R to respond to friend requests or CTRL+C to exit...'')
                (emit DisplayIncomingCall (emit (FetchIncomingCall (Token token))
                  (Println (nl @ inboxSign @ '' Fetching incoming friend requests...'') w)))"
    have "makeRaw_errno env (calls isMakeRaw ?w3) \<noteq> (0, 0)"
      using assms by (simp add: print_defs)
    from makeRaw_fail [OF this] show ?thesis
      using f by (auto simp: handleIncomingRequests_def Let_def waitForCtrlR_def)
  qed
  have c: "fst (receive_message env reads w) = Return None \<or> fst (receive_message env reads w) = Exit 1"
  proof -
    have k: "out = Return ()"
      if "waitForCtrlRInReceiveMessage env tk fr reads v = (out, v')"
        and "calls isMakeRaw v = calls isMakeRaw w" for tk fr v out v'
      using waitForCtrlRInReceiveMessage_fail [of env v tk fr reads] assms that by simp
    show ?thesis
      by (auto simp: receive_message_def Let_def fetchConversation_def print_defs
          split: sum.splits prod.splits outcome.splits option.splits
          dest!: selectFriend_result k)
  qed
  from a b c show ?thesis by blast
qed

theorem setup_failure_reported_witness:
  "makeRaw_errno noTtyEnv (calls isMakeRaw (start cooked)) \<noteq> (0, 0)
   \<and> fst (waitForCtrlRInReceiveMessage noTtyEnv someToken someFriend [ReadByte 18] (start cooked)) = Return ()
   \<and> tty (snd (waitForCtrlRInReceiveMessage noTtyEnv someToken someFriend [ReadByte 18] (start cooked))) = cooked
   \<and> fst (handleIncomingRequests noTtyEnv someToken [ReadByte 18] (start cooked)) = Return None"
proof -
  have h: "makeRaw_errno noTtyEnv (calls isMakeRaw (start cooked)) \<noteq> (0, 0)"
    by (simp add: noTtyEnv_def)
  have f: "fetchIncomingFriendRequests_result noTtyEnv = Inr []"
    by (simp add: noTtyEnv_def quietEnv_def)
  show ?thesis
    using h f setup_failure_reported [OF h, of someToken someFriend "[ReadByte 18]" "[]"]
    by (auto simp: print_defs start_def)
qed

subsection \<open>The handlers\<close>

lemma raw_flags_clear: "(x AND NOT m) AND m = (0 :: 32 word)"
  by (simp add: and.assoc)

lemmas io_defs = ReadString_def sendMessageToFriend_def fetchConversation_def
  respondToFriendRequest_def print_defs

text \<open>
  C5. When the line read by \<open>handleSendMessage\<close> is empty after \<open>strings.TrimSpace\<close>, the
  handler writes \<open>Message cannot be empty. Message sending cancelled.\<close> and returns \<open>nil\<close>;
  its only effects are the two prompts, the line read and this message, so
  \<open>sendMessageToFriend\<close> is not called. Whenever the handler does call
  \<open>sendMessageToFriend\<close>, the message sent is the trimmed line and is not empty.
\<close>

theorem empty_message_not_sent:
  "(ReadString_result env (calls isReadString w) = Inr input
      \<and> TrimSpace (trimU env) (trimRightU env) input = [] \<longrightarrow>
      handleSendMessage env token friend w =
        (None, w\<lparr>trace := trace w @
           [Output (''Sending message to: %s'' @ nl) [ArgS (GetUsername friend)],
            Output ''Enter your message: '' [],
            ReadStringCall (Inr input),
            Output (''Message cannot be empty. Message sending cancelled.'' @ nl) []]\<rparr>))
   \<and> (\<forall>t m p r. SendMessageCall t m p r
            \<in> set (newEvents w (snd (handleSendMessage env token friend w))) \<longrightarrow>
        m \<noteq> [] \<and> (\<exists>line. ReadString_result env (calls isReadString w) = Inr line
                       \<and> m = TrimSpace (trimU env) (trimRightU env) line))"
  by (auto simp: handleSendMessage_def Let_def io_defs emit_def calls_def newEvents_def
      split: prod.splits sum.splits option.splits if_splits)

theorem empty_message_not_sent_witness:
  "TrimSpace (\<lambda>s. s) (\<lambda>s. s) [CHR '' '', CHR 0x09, CHR 0x0A] = []
   \<and> fst (handleSendMessage (quietEnv [CHR '' '', CHR 0x09, CHR 0x0A]) someToken someFriend (start cooked)) = None
   \<and> calls isSendMessage (snd (handleSendMessage (quietEnv [CHR '' '', CHR 0x09, CHR 0x0A]) someToken someFriend (start cooked))) = 0"
proof -
  let ?e = "quietEnv [CHR '' '', CHR 0x09, CHR 0x0A]"
  have t: "TrimSpace (\<lambda>s. s) (\<lambda>s. s) [CHR '' '', CHR 0x09, CHR 0x0A] = []" by code_simp
  have r: "ReadString_result ?e (calls isReadString (start cooked)) = Inr [CHR '' '', CHR 0x09, CHR 0x0A]"
    by (simp add: quietEnv_def)
  have u: "trimU ?e = (\<lambda>s. s)" "trimRightU ?e = (\<lambda>s. s)" by (simp_all add: quietEnv_def)
  show ?thesis
    using t r empty_message_not_sent [of ?e "start cooked" "[CHR '' '', CHR 0x09, CHR 0x0A]" someToken someFriend]
    by (simp add: u start_def calls_def)
qed

lemma printRequests_calls:
  "(\<And>f a. \<not> P (Output f a)) \<Longrightarrow> calls P (printRequests i rs w) = calls P w"
  by (induction i rs w rule: printRequests.induct) (simp_all add: print_defs)

lemma handleFriendRequestResponse_invalid:
  assumes "respondableRequests (mapLower env) requests \<noteq> []"
      and "ReadString_result env (calls isReadString w) = Inr input"
      and "Atoi (TrimSpace (trimU env) (trimRightU env) input) = None
           \<or> (\<exists>n. Atoi (TrimSpace (trimU env) (trimRightU env) input) = Some n
                \<and> (n < 1 \<or> int (length (respondableRequests (mapLower env) requests)) < n))"
  shows "handleFriendRequestResponse env token requests w =
     (Return (),
      Println ''Invalid request number.''
       (emit (ReadStringCall (Inr input))
         (Print (nl @ ''Enter the number of the request to respond to: '')
           (printRequests 0 (respondableRequests (mapLower env) requests)
             (Println ''Available requests (pending/rejected only):''
               (Println (nl @ ''=== Respond to Friend Requests ==='') w))))))"
  using assms
  by (auto simp: handleFriendRequestResponse_def Let_def ReadString_def print_defs
      printRequests_calls)

text \<open>
  C6. When there is at least one request to respond to and the line read as the selection
  is not a number (\<open>strconv.Atoi\<close> of the trimmed line fails) or is a number below 1 or
  above the number of listed requests, \<open>handleFriendRequestResponse\<close> returns normally,
  the last thing it writes is \<open>Invalid request number.\<close>, it reads no second line and it
  makes no call of \<open>respondToFriendRequest\<close>.
\<close>

theorem invalid_selection_rejected:
  assumes "respondableRequests (mapLower env) requests \<noteq> []"
      and "ReadString_result env (calls isReadString w) = Inr input"
      and "Atoi (TrimSpace (trimU env) (trimRightU env) input) = None
           \<or> (\<exists>n. Atoi (TrimSpace (trimU env) (trimRightU env) input) = Some n
                \<and> (n < 1 \<or> int (length (respondableRequests (mapLower env) requests)) < n))"
  shows "fst (handleFriendRequestResponse env token requests w) = Return ()
     \<and> last (trace (snd (handleFriendRequestResponse env token requests w)))
         = Output (''Invalid request number.'' @ nl) []
     \<and> calls isRespond (snd (handleFriendRequestResponse env token requests w)) = calls isRespond w
     \<and> calls isReadString (snd (handleFriendRequestResponse env token requests w))
         = Suc (calls isReadString w)"
  by (simp add: handleFriendRequestResponse_invalid [OF assms] print_defs printRequests_calls)

theorem invalid_selection_rejected_witness:
  "fst (handleFriendRequestResponse (quietEnv (''abc'' @ nl)) someToken
          [request 1 ''pending'', request 2 ''rejected''] (start cooked)) = Return ()
   \<and> calls isRespond (snd (handleFriendRequestResponse (quietEnv (''abc'' @ nl)) someToken
          [request 1 ''pending'', request 2 ''rejected''] (start cooked))) = 0
   \<and> fst (handleFriendRequestResponse (quietEnv (''5'' @ nl)) someToken
          [request 1 ''pending'', request 2 ''rejected''] (start cooked)) = Return ()
   \<and> last (trace (snd (handleFriendRequestResponse (quietEnv (''5'' @ nl)) someToken
          [request 1 ''pending'', request 2 ''rejected''] (start cooked))))
        = Output (''Invalid request number.'' @ nl) []
   \<and> calls isRespond (snd (handleFriendRequestResponse (quietEnv (''5'' @ nl)) someToken
          [request 1 ''pending'', request 2 ''rejected''] (start cooked))) = 0"
proof -
  let ?rs = "[request 1 ''pending'', request 2 ''rejected'']"
  have l: "length (respondableRequests (\<lambda>s. s) ?rs) = 2" by code_simp
  then have ne: "respondableRequests (\<lambda>s. s) ?rs \<noteq> []" by auto
  have a: "Atoi (TrimSpace (\<lambda>s. s) (\<lambda>s. s) (''abc'' @ nl)) = None" by code_simp
  have b: "Atoi (TrimSpace (\<lambda>s. s) (\<lambda>s. s) (''5'' @ nl)) = Some 5" by code_simp
  have e: "mapLower (quietEnv x) = (\<lambda>s. s)" "trimU (quietEnv x) = (\<lambda>s. s)"
    "trimRightU (quietEnv x) = (\<lambda>s. s)" "ReadString_result (quietEnv x) n = Inr x" for x n
    by (simp_all add: quietEnv_def)
  have z: "calls isRespond (start cooked) = 0" by (simp add: start_def calls_def)
  show ?thesis
    using invalid_selection_rejected [of "quietEnv (''abc'' @ nl)" ?rs "start cooked" "''abc'' @ nl" someToken]
          invalid_selection_rejected [of "quietEnv (''5'' @ nl)" ?rs "start cooked" "''5'' @ nl" someToken]
          l ne a b z
    by (simp add: e)
qed

lemma handleSendMessage_sent:
  assumes "ReadString_result env (calls isReadString w) = Inr input"
      and "TrimSpace (trimU env) (trimRightU env) input = message" and "message \<noteq> []"
      and "sendMessageToFriend_result env (calls isSendMessage w) = None"
  shows "fst (handleSendMessage env token friend w) = None"
    and "tty (snd (handleSendMessage env token friend w)) = tty w"
    and "filter (\<lambda>e. isNetwork e \<or> isMakeRaw e) (newEvents w (snd (handleSendMessage env token friend w)))
          = [SendMessageCall (Token token) message (GetUserID friend) None,
             FetchConversationCall (Token token) (GetUserID friend)
               (fetchConversation_result env (calls isFetchConversation w))]"
    and "filter isNetwork (newEvents w (snd (handleSendMessage env token friend w)))
          = [SendMessageCall (Token token) message (GetUserID friend) None,
             FetchConversationCall (Token token) (GetUserID friend)
               (fetchConversation_result env (calls isFetchConversation w))]"
  using assms
  by (auto simp: handleSendMessage_def Let_def io_defs emit_def calls_def newEvents_def isNetwork_def
      split: prod.splits sum.splits option.splits if_splits)

lemma makeRaw_trace:
  "makeRaw env w = (r, w') \<Longrightarrow> trace w' = trace w @ [MakeRawCall r]"
  by (cases "makeRaw_errno env (calls isMakeRaw w)")
     (auto simp: makeRaw_def Let_def split: if_splits)

lemma handleSendMessage_extends:
  "\<exists>evs. trace (snd (handleSendMessage env token friend w)) = trace w @ evs"
  by (auto simp: handleSendMessage_def Let_def io_defs split: prod.splits sum.splits option.splits)

lemma composeBranch_sent:
  assumes "ReadString_result env (calls isReadString w) = Inr input"
      and "TrimSpace (trimU env) (trimRightU env) input = message" and "message \<noteq> []"
      and "sendMessageToFriend_result env (calls isSendMessage w) = None"
  shows "\<exists>mr. filter (\<lambda>e. isNetwork e \<or> isMakeRaw e)
               (newEvents w (snd (composeBranch env token friend oldState w)))
            = [SendMessageCall (Token token) message (GetUserID friend) None,
               FetchConversationCall (Token token) (GetUserID friend)
                 (fetchConversation_result env (calls isFetchConversation w)),
               MakeRawCall mr]
          \<and> (case mr of
               Inl err \<Rightarrow> fst (composeBranch env token friend oldState w) = None
             | Inr st \<Rightarrow> fst (composeBranch env token friend oldState w) = Some st
                  \<and> Lflag (tty (snd (composeBranch env token friend oldState w))) AND (ICANON OR ECHO) = 0)"
proof -
  define w2 where "w2 = Println (nl @ speechSign @ '' Send Message Mode'') (snd (restoreForReceiveMessage env (Some oldState) w))"
  define h where "h = handleSendMessage env token friend w2"
  define w5 where "w5 = Println keysHint (snd h)"
  obtain mr w6 where mk: "makeRaw env w5 = (mr, w6)"
    by (cases "makeRaw env w5")
  have t2: "trace w2 = trace w @ [RestoreCall (Some oldState) (fst (restore env (Some oldState) w)),
                                  Output (nl @ speechSign @ '' Send Message Mode'' @ nl) []]"
    by (simp add: w2_def restoreForReceiveMessage_def restore_def Let_def print_defs)
  have c2: "calls isReadString w2 = calls isReadString w" "calls isSendMessage w2 = calls isSendMessage w"
    "calls isFetchConversation w2 = calls isFetchConversation w"
    by (simp_all add: calls_def t2)
  note hs = handleSendMessage_sent [of env w2 input message token friend, unfolded c2, OF assms, folded h_def]
  obtain evs where ev: "trace (snd h) = trace w2 @ evs"
    using handleSendMessage_extends [of env token friend w2] by (auto simp: h_def)
  then have ne: "newEvents w2 (snd h) = evs"
    by (simp add: newEvents_def)
  have t5: "trace w5 = trace w @ [RestoreCall (Some oldState) (fst (restore env (Some oldState) w)),
                                  Output (nl @ speechSign @ '' Send Message Mode'' @ nl) []]
                        @ evs @ [Output (keysHint @ nl) []]"
    by (simp add: w5_def print_defs ev t2)
  have t6: "trace w6 = trace w5 @ [MakeRawCall mr]"
    by (rule makeRaw_trace [OF mk])
  have cb: "composeBranch env token friend oldState w =
     (case mr of Inl err \<Rightarrow> (None, Printf (''Error setting terminal to raw mode: %v'' @ nl) [ArgE err] w6)
               | Inr st \<Rightarrow> (Some st, w6))"
    using hs(1) mk
    by (cases "handleSendMessage env token friend w2")
       (simp add: composeBranch_def Let_def w2_def [symmetric] h_def w5_def makeRawForReceiveMessage_def
         split: sum.splits)
  have fl: "filter (\<lambda>e. isNetwork e \<or> isMakeRaw e) evs
            = [SendMessageCall (Token token) message (GetUserID friend) None,
               FetchConversationCall (Token token) (GetUserID friend)
                 (fetchConversation_result env (calls isFetchConversation w))]"
    using hs(3) ne by simp
  show ?thesis
  proof (cases mr)
    case (Inl err)
    then show ?thesis
      using cb t5 t6 fl
      by (intro exI [of _ mr]) (simp add: newEvents_def print_defs isNetwork_def)
  next
    case (Inr st)
    have "tty w6 = st\<lparr>Lflag := Lflag st AND NOT (ICANON OR ECHO), Cc := (Cc st)[VMIN := 1, VTIME := 0]\<rparr>"
      using makeRaw_Inr [of env w5 st w6] mk Inr by simp
    then have fl6: "Lflag (tty w6) AND (ICANON OR ECHO) = 0"
      using raw_flags_clear [of "Lflag st" "ICANON OR ECHO"] by simp
    show ?thesis
      using cb t5 t6 fl fl6 Inr
      by (intro exI [of _ mr]) (simp add: newEvents_def print_defs isNetwork_def)
  qed
qed


text \<open>
  C7. When the line read by \<open>handleSendMessage\<close> is not empty after trimming and
  \<open>sendMessageToFriend\<close> succeeds, the handler returns \<open>nil\<close> and its calls to the backend
  are the send followed by one \<open>fetchConversation\<close>, both for \<open>friend.GetUserID()\<close>. In
  the loop, the branch of the key 19 then calls \<open>makeRawForReceiveMessage\<close>: if that call
  succeeds, the loop goes on to the next read with \<open>ICANON\<close> and \<open>ECHO\<close> cleared; if it
  fails, the loop returns and reads no further key.
\<close>

theorem send_then_refresh:
  assumes "ReadString_result env (calls isReadString w) = Inr input"
      and "TrimSpace (trimU env) (trimRightU env) input = message" and "message \<noteq> []"
      and "sendMessageToFriend_result env (calls isSendMessage w) = None"
  shows "fst (handleSendMessage env token friend w) = None
     \<and> filter isNetwork (newEvents w (snd (handleSendMessage env token friend w)))
          = [SendMessageCall (Token token) message (GetUserID friend) None,
             FetchConversationCall (Token token) (GetUserID friend)
               (fetchConversation_result env (calls isFetchConversation w))]
     \<and> (\<exists>mr. filter (\<lambda>e. isNetwork e \<or> isMakeRaw e)
               (newEvents w (snd (composeBranch env token friend oldState w)))
            = [SendMessageCall (Token token) message (GetUserID friend) None,
               FetchConversationCall (Token token) (GetUserID friend)
                 (fetchConversation_result env (calls isFetchConversation w)),
               MakeRawCall mr]
          \<and> (case mr of
               Inl err \<Rightarrow>
                 receiveLoop env token friend oldState (ReadByte 19 # reads) w
                   = (Return (), snd (composeBranch env token friend oldState w))
             | Inr st \<Rightarrow>
                 receiveLoop env token friend oldState (ReadByte 19 # reads) w
                   = receiveLoop env token friend st reads (snd (composeBranch env token friend oldState w))
                 \<and> Lflag (tty (snd (composeBranch env token friend oldState w))) AND (ICANON OR ECHO) = 0))"
proof -
  from composeBranch_sent [OF assms, of token friend oldState] obtain mr where
    f: "filter (\<lambda>e. isNetwork e \<or> isMakeRaw e)
               (newEvents w (snd (composeBranch env token friend oldState w)))
            = [SendMessageCall (Token token) message (GetUserID friend) None,
               FetchConversationCall (Token token) (GetUserID friend)
                 (fetchConversation_result env (calls isFetchConversation w)),
               MakeRawCall mr]"
    and c: "case mr of
               Inl err \<Rightarrow> fst (composeBranch env token friend oldState w) = None
             | Inr st \<Rightarrow> fst (composeBranch env token friend oldState w) = Some st
                  \<and> Lflag (tty (snd (composeBranch env token friend oldState w))) AND (ICANON OR ECHO) = 0"
    by blast
  obtain x w2 where cb: "composeBranch env token friend oldState w = (x, w2)"
    by (cases "composeBranch env token friend oldState w")
  have "case mr of
               Inl err \<Rightarrow>
                 receiveLoop env token friend oldState (ReadByte 19 # reads) w
                   = (Return (), snd (composeBranch env token friend oldState w))
             | Inr st \<Rightarrow>
                 receiveLoop env token friend oldState (ReadByte 19 # reads) w
                   = receiveLoop env token friend st reads (snd (composeBranch env token friend oldState w))
                 \<and> Lflag (tty (snd (composeBranch env token friend oldState w))) AND (ICANON OR ECHO) = 0"
    using c cb by (cases mr) auto
  with f handleSendMessage_sent(1,4) [OF assms, of token friend] show ?thesis
    by blast
qed

theorem send_then_refresh_witness:
  "filter isNetwork (newEvents (start cooked)
       (snd (handleSendMessage (quietEnv (''hi'' @ nl)) someToken someFriend (start cooked))))
     = [SendMessageCall ''t'' ''hi'' ''7'' None, FetchConversationCall ''t'' ''7'' None]
   \<and> receiveLoop (quietEnv (''hi'' @ nl)) someToken someFriend cooked [ReadByte 19] (start cooked)
     = (Blocked, snd (composeBranch (quietEnv (''hi'' @ nl)) someToken someFriend cooked (start cooked)))"
proof -
  let ?e = "quietEnv (''hi'' @ nl)"
  have t: "TrimSpace (trimU ?e) (trimRightU ?e) (''hi'' @ nl) = ''hi''" by code_simp
  have r: "ReadString_result ?e (calls isReadString (start cooked)) = Inr (''hi'' @ nl)"
    by (simp add: quietEnv_def)
  have s: "sendMessageToFriend_result ?e (calls isSendMessage (start cooked)) = None"
    by (simp add: quietEnv_def)
  have n: "''hi'' \<noteq> []" by simp
  have m: "receiveLoop ?e someToken someFriend cooked [ReadByte 19] (start cooked)
     = (Blocked, snd (composeBranch ?e someToken someFriend cooked (start cooked)))"
    by code_simp
  have g: "GetUserID someFriend = ''7''" "Token someToken = ''t''"
    "fetchConversation_result (quietEnv x) k = None" for k x
    by (simp_all add: GetUserID_def someFriend_def someToken_def quietEnv_def)
  from send_then_refresh [OF r t n s, of someToken someFriend cooked "[]"]
  have "filter isNetwork (newEvents (start cooked)
       (snd (handleSendMessage ?e someToken someFriend (start cooked))))
     = [SendMessageCall ''t'' ''hi'' ''7'' None, FetchConversationCall ''t'' ''7'' None]"
    by (simp add: g)
  with m show ?thesis by simp
qed


end
